theory Spec2Isabelle
  imports Main "HOL-Library.AList"
begin

section \<open>The signalling server (Backend/server.js)\<close>

text \<open>
  The server keeps two JavaScript \<open>Map\<close>s, \<open>rooms\<close> and \<open>users\<close>, and relays events
  through socket.io. A JavaScript \<open>Map\<close> iterates in insertion order and \<open>set\<close> on a
  key that is present keeps the key's position, so a \<open>Map\<close> is an association list:
  \<open>m.set(k, v)\<close> is \<open>AList.update k v m\<close>, \<open>m.delete(k)\<close> is \<open>AList.delete k m\<close>,
  \<open>m.get(k)\<close> is \<open>map_of m k\<close>, \<open>m.has(k)\<close> is \<open>map_of m k \<noteq> None\<close>,
  \<open>Array.from(m.values())\<close> is \<open>map snd m\<close> and \<open>m.size === 0\<close> is \<open>m = []\<close>.

  \<open>new Date()\<close> and \<open>uuidv4()\<close> read the environment: their results come with the
  event that triggers the handler.
\<close>

type_synonym socket_id = string
type_synonym room_name = string
type_synonym timestamp = nat
type_synonym payload = string

text \<open>An entry of \<open>room.users\<close>: \<open>{id, username, joinedAt}\<close>.\<close>

record member =
  member_id :: socket_id
  member_username :: string
  member_joinedAt :: timestamp

text \<open>The \<open>messageData\<close> object of the \<open>send-message\<close> handler.\<close>

record chat_message =
  msg_id :: string
  msg_username :: string
  msg_message :: string
  msg_timestamp :: timestamp
  msg_userId :: socket_id

text \<open>A value of the \<open>rooms\<close> map: \<open>{id, users, messages, isVideoCall}\<close>.\<close>

record room =
  room_id :: room_name
  room_users :: "(socket_id \<times> member) list"
  room_messages :: "chat_message list"
  room_isVideoCall :: bool

text \<open>A value of the \<open>users\<close> map: \<open>{roomId, username}\<close>.\<close>

record user_entry =
  user_roomId :: room_name
  user_username :: string

text \<open>
  The state: the two maps of server.js and the rooms of the socket.io adapter. For
  every connected socket, \<open>sids\<close> holds the rooms the socket is in: socket.io puts a
  socket into the room named by its own id when it connects, \<open>socket.join(r)\<close> adds
  \<open>r\<close>, and a socket that disconnects has left all its rooms when its \<open>disconnect\<close>
  handler runs.
\<close>

record server =
  rooms :: "(room_name \<times> room) list"
  users :: "(socket_id \<times> user_entry) list"
  sids :: "(socket_id \<times> room_name list) list"

definition server0 :: server where
  "server0 = \<lparr>rooms = [], users = [], sids = []\<rparr>"

text \<open>What a client sends, with the socket it comes from.\<close>

datatype event =
    Connection socket_id
  | JoinRoom socket_id room_name string bool timestamp
  | SendMessage socket_id string string timestamp
  | WebrtcOffer socket_id string payload
  | WebrtcAnswer socket_id string payload
  | WebrtcIceCandidate socket_id string payload
  | StartVideoCall socket_id
  | EndVideoCall socket_id
  | Disconnect socket_id

text \<open>What the server emits.\<close>

datatype out_event =
    UserJoined socket_id string "member list"
  | RoomJoined room_name "member list" "chat_message list" bool
  | NewMessage chat_message
  | OfferTo payload socket_id
  | AnswerTo payload socket_id
  | IceCandidateTo payload socket_id
  | VideoCallStarted socket_id string
  | VideoCallEnded socket_id
  | UserLeft socket_id string "member list"

text \<open>
  The three ways the handlers address an emit: \<open>socket.emit\<close> (the socket itself),
  \<open>socket.to(r).emit\<close> and \<open>io.to(r).emit\<close> (every socket in room \<open>r\<close>). socket.io
  builds \<open>socket.to(r)\<close> as a broadcast to room \<open>r\<close> except the room named by the
  sender's identifier: it leaves out every socket that is in that room, which is the
  sender and every socket that has joined a room of that name.
\<close>

datatype target =
    SocketEmit socket_id
  | SocketTo string socket_id
  | IoTo string

type_synonym emission = "target \<times> out_event"

definition in_room :: "server \<Rightarrow> string \<Rightarrow> socket_id list" where
  "in_room st r = map fst (filter (\<lambda>(s, rs). r \<in> set rs) (sids st))"

fun recipients :: "server \<Rightarrow> target \<Rightarrow> socket_id list" where
  "recipients st (SocketEmit s) = filter (\<lambda>s'. s' = s) (map fst (sids st))"
| "recipients st (SocketTo r s) = filter (\<lambda>s'. s' \<notin> set (in_room st s)) (in_room st r)"
| "recipients st (IoTo r) = in_room st r"

subsection \<open>The handlers\<close>

definition connection :: "socket_id \<Rightarrow> server \<Rightarrow> server \<times> emission list" where
  "connection s st =
     (if map_of (sids st) s \<noteq> None then (st, [])
      else (st\<lparr>sids := AList.update s [s] (sids st)\<rparr>, []))"

definition socket_join :: "socket_id \<Rightarrow> string \<Rightarrow> server \<Rightarrow> server" where
  "socket_join s r st =
     (case map_of (sids st) s of
        None \<Rightarrow> st
      | Some rs \<Rightarrow> st\<lparr>sids := AList.update s (if r \<in> set rs then rs else rs @ [r]) (sids st)\<rparr>)"

definition join_room ::
  "socket_id \<Rightarrow> room_name \<Rightarrow> string \<Rightarrow> bool \<Rightarrow> timestamp \<Rightarrow> server \<Rightarrow> server \<times> emission list" where
  "join_room s roomId username isVideoCall now st =
     (let created = \<lparr>room_id = roomId, room_users = [], room_messages = [],
                     room_isVideoCall = (isVideoCall \<or> False)\<rparr>;
          (rooms1, room0) =
            (case map_of (rooms st) roomId of
               None \<Rightarrow> (AList.update roomId created (rooms st), created)
             | Some rm \<Rightarrow> (rooms st, rm));
          room1 = room0\<lparr>room_users :=
                    AList.update s
                      \<lparr>member_id = s, member_username = username, member_joinedAt = now\<rparr>
                      (room_users room0)\<rparr>;
          st1 = socket_join s roomId
                  (st\<lparr>rooms := AList.update roomId room1 rooms1,
                      users := AList.update s
                                 \<lparr>user_roomId = roomId, user_username = username\<rparr>
                                 (users st)\<rparr>)
      in (st1,
          [(SocketTo roomId s, UserJoined s username (map snd (room_users room1))),
           (SocketEmit s,
            RoomJoined roomId (map snd (room_users room1)) (room_messages room1)
              (room_isVideoCall room1))]))"

definition send_message ::
  "socket_id \<Rightarrow> string \<Rightarrow> string \<Rightarrow> timestamp \<Rightarrow> server \<Rightarrow> server \<times> emission list" where
  "send_message s message uuid now st =
     (case map_of (users st) s of
        None \<Rightarrow> (st, [])
      | Some user \<Rightarrow>
          (case map_of (rooms st) (user_roomId user) of
             None \<Rightarrow> (st, [])
           | Some room0 \<Rightarrow>
               let messageData =
                     \<lparr>msg_id = uuid, msg_username = user_username user, msg_message = message,
                      msg_timestamp = now, msg_userId = s\<rparr>;
                   room1 = room0\<lparr>room_messages := room_messages room0 @ [messageData]\<rparr>
               in (st\<lparr>rooms := AList.update (user_roomId user) room1 (rooms st)\<rparr>,
                   [(IoTo (user_roomId user), NewMessage messageData)])))"

definition webrtc_offer :: "socket_id \<Rightarrow> string \<Rightarrow> payload \<Rightarrow> server \<Rightarrow> server \<times> emission list" where
  "webrtc_offer s targetUserId offer st = (st, [(SocketTo targetUserId s, OfferTo offer s)])"

definition webrtc_answer :: "socket_id \<Rightarrow> string \<Rightarrow> payload \<Rightarrow> server \<Rightarrow> server \<times> emission list" where
  "webrtc_answer s targetUserId answer st = (st, [(SocketTo targetUserId s, AnswerTo answer s)])"

definition webrtc_ice_candidate ::
  "socket_id \<Rightarrow> string \<Rightarrow> payload \<Rightarrow> server \<Rightarrow> server \<times> emission list" where
  "webrtc_ice_candidate s targetUserId candidate st =
     (st, [(SocketTo targetUserId s, IceCandidateTo candidate s)])"

definition start_video_call :: "socket_id \<Rightarrow> server \<Rightarrow> server \<times> emission list" where
  "start_video_call s st =
     (case map_of (users st) s of
        None \<Rightarrow> (st, [])
      | Some user \<Rightarrow> (st, [(SocketTo (user_roomId user) s, VideoCallStarted s (user_username user))]))"

definition end_video_call :: "socket_id \<Rightarrow> server \<Rightarrow> server \<times> emission list" where
  "end_video_call s st =
     (case map_of (users st) s of
        None \<Rightarrow> (st, [])
      | Some user \<Rightarrow> (st, [(SocketTo (user_roomId user) s, VideoCallEnded s)]))"

text \<open>
  The \<open>disconnect\<close> handler, run on a state whose adapter has already dropped the
  socket (see \<open>step\<close>).
\<close>

definition disconnect :: "socket_id \<Rightarrow> server \<Rightarrow> server \<times> emission list" where
  "disconnect s st =
     (case map_of (users st) s of
        None \<Rightarrow> (st, [])
      | Some user \<Rightarrow>
          (case map_of (rooms st) (user_roomId user) of
             None \<Rightarrow> (st\<lparr>users := AList.delete s (users st)\<rparr>, [])
           | Some room0 \<Rightarrow>
               let room1 = room0\<lparr>room_users := AList.delete s (room_users room0)\<rparr>
               in if room_users room1 = []
                  then (st\<lparr>rooms := AList.delete (user_roomId user) (rooms st),
                           users := AList.delete s (users st)\<rparr>, [])
                  else (st\<lparr>rooms := AList.update (user_roomId user) room1 (rooms st),
                           users := AList.delete s (users st)\<rparr>,
                        [(SocketTo (user_roomId user) s,
                          UserLeft s (user_username user) (map snd (room_users room1)))])))"

text \<open>
  One event. The handlers are registered on a socket inside \<open>io.on('connection')\<close>,
  so an event of a socket that is not connected does not reach them; a connection
  event for an identifier that is connected does not occur and changes nothing.
\<close>

fun step :: "server \<Rightarrow> event \<Rightarrow> server \<times> emission list" where
  "step st (Connection s) = connection s st"
| "step st (Disconnect s) =
     (if map_of (sids st) s = None then (st, [])
      else disconnect s (st\<lparr>sids := AList.delete s (sids st)\<rparr>))"
| "step st (JoinRoom s roomId username isVideoCall now) =
     (if map_of (sids st) s = None then (st, [])
      else join_room s roomId username isVideoCall now st)"
| "step st (SendMessage s message uuid now) =
     (if map_of (sids st) s = None then (st, []) else send_message s message uuid now st)"
| "step st (WebrtcOffer s t offer) =
     (if map_of (sids st) s = None then (st, []) else webrtc_offer s t offer st)"
| "step st (WebrtcAnswer s t answer) =
     (if map_of (sids st) s = None then (st, []) else webrtc_answer s t answer st)"
| "step st (WebrtcIceCandidate s t candidate) =
     (if map_of (sids st) s = None then (st, []) else webrtc_ice_candidate s t candidate st)"
| "step st (StartVideoCall s) =
     (if map_of (sids st) s = None then (st, []) else start_video_call s st)"
| "step st (EndVideoCall s) =
     (if map_of (sids st) s = None then (st, []) else end_video_call s st)"

text \<open>The state after a sequence of events, from the empty server.\<close>

definition exec :: "event list \<Rightarrow> server" where
  "exec evs = foldl (\<lambda>st ev. fst (step st ev)) server0 evs"

text \<open>The membership of a room, empty for a room the registry does not hold.\<close>

definition membership :: "server \<Rightarrow> room_name \<Rightarrow> (socket_id \<times> member) list" where
  "membership st r = (case map_of (rooms st) r of None \<Rightarrow> [] | Some rm \<Rightarrow> room_users rm)"

definition is_member :: "server \<Rightarrow> socket_id \<Rightarrow> room_name \<Rightarrow> bool" where
  "is_member st s r = (map_of (membership st r) s \<noteq> None)"

text \<open>The rooms of the registry that hold a connection, in the registry's order.\<close>

definition rooms_of :: "server \<Rightarrow> socket_id \<Rightarrow> room_name list" where
  "rooms_of st s = map fst (filter (\<lambda>(r, rm). map_of (room_users rm) s \<noteq> None) (rooms st))"

text \<open>
  The connection identifiers a sequence of events has seen. socket.io gives every
  connection an identifier of its own, so the sequences that occur have no identifier
  twice: \<open>distinct (connections evs)\<close>.
\<close>

definition connections :: "event list \<Rightarrow> socket_id list" where
  "connections evs = concat (map (\<lambda>ev. case ev of Connection s \<Rightarrow> [s] | _ \<Rightarrow> []) evs)"

subsection \<open>Invariants of the reachable states\<close>

text \<open>No room of the registry is empty.\<close>

definition rooms_nonempty :: "server \<Rightarrow> bool" where
  "rooms_nonempty st = (\<forall>r rm. map_of (rooms st) r = Some rm \<longrightarrow> room_users rm \<noteq> [])"



section \<open>The session coordinator of a client (hooks/useWebRTC.ts)\<close>

text \<open>
  The hook keeps its peer connections in \<open>peersRef\<close>, a \<open>Map\<close> from the remote user's
  identifier to \<open>{userId, connection}\<close>; \<open>connection\<close> is a reference to an
  \<open>RTCPeerConnection\<close> object of the browser. Objects that are referenced live in a heap,
  a list indexed by the reference, so that a connection that the map no longer holds is
  still there, closed or not.

  Of the browser's \<open>RTCPeerConnection\<close> the model keeps what the hook touches: the tracks
  added, the two descriptions, the candidates added, whether the connection is closed,
  and its operations chain. The browser chains \<open>setLocalDescription\<close>,
  \<open>setRemoteDescription\<close> and \<open>addIceCandidate\<close>: an operation that is invoked while
  another one of the connection is pending runs after it, and tests the connection when
  it runs. \<open>addIceCandidate\<close> on a connection that then has no remote description is
  rejected (InvalidStateError) and adds nothing, and so is every operation on a closed
  connection; the descriptions and candidates themselves are taken to be well formed.
  What the browser produces (\<open>getUserMedia\<close>, \<open>createOffer\<close>, \<open>createAnswer\<close>) comes as an
  argument of the handler that awaits it.

  \<open>handleOffer\<close>, \<open>handleAnswer\<close>, \<open>handleIceCandidate\<close> and \<open>initiateCall\<close> are the
  handlers run from their first line to their last, every \<open>await\<close> settled on the spot.
  \<open>handleOffer\<close> and \<open>handleAnswer\<close> store or find the peer before they await
  \<open>setRemoteDescription\<close>; \<open>handleOffer_begin\<close> and \<open>handleAnswer_begin\<close> are the handlers
  up to that \<open>await\<close>, with the operation pending, and \<open>handleOffer_resume\<close> is the rest
  of \<open>handleOffer\<close>, so that an event that arrives in between is handled in between.
\<close>

type_synonym track = string
type_synonym media_stream = "track list"
type_synonym sdp = string
type_synonym candidate = string

datatype rtc_operation =
    SetLocalDescription sdp
  | SetRemoteDescription sdp
  | AddIceCandidate candidate

record rtc_peer_connection =
  pc_userId :: string
  pc_tracks :: "track list"
  pc_localDescription :: "sdp option"
  pc_remoteDescription :: "sdp option"
  pc_iceCandidates :: "candidate list"
  pc_closed :: bool
  pc_operations :: "rtc_operation list"

text \<open>The interface \<open>PeerConnection\<close>; its optional \<open>stream\<close> is never assigned.\<close>

record peer_connection =
  peer_userId :: string
  peer_connection :: nat

text \<open>What the hook sends to the server with \<open>socket.emit\<close>.\<close>

datatype client_emit =
    EmitStartVideoCall
  | EmitWebrtcOffer string sdp
  | EmitWebrtcAnswer string sdp
  | EmitWebrtcIceCandidate string candidate

record client =
  socketId :: string
  isCallActive :: bool
  localStreamRef :: "media_stream option"
  localStream :: "media_stream option"
  peersRef :: "(string \<times> peer_connection) list"
  peers :: "(string \<times> peer_connection) list"
  remoteStreams :: "(string \<times> media_stream) list"
  heap :: "rtc_peer_connection list"
  emitted :: "client_emit list"
  rejections :: "string list"

definition client0 :: "string \<Rightarrow> client" where
  "client0 sid =
     \<lparr>socketId = sid, isCallActive = False, localStreamRef = None, localStream = None,
      peersRef = [], peers = [], remoteStreams = [], heap = [], emitted = [],
      rejections = []\<rparr>"

subsection \<open>The browser's operations on a connection\<close>

definition usable :: "rtc_peer_connection list \<Rightarrow> nat \<Rightarrow> bool" where
  "usable hp h = (h < length hp \<and> \<not> pc_closed (hp ! h))"

text \<open>One operation, when the browser runs it: \<open>None\<close> is the rejected promise.\<close>

fun perform :: "rtc_operation \<Rightarrow> rtc_peer_connection \<Rightarrow> rtc_peer_connection option" where
  "perform (SetLocalDescription d) pc =
     (if pc_closed pc then None else Some (pc\<lparr>pc_localDescription := Some d\<rparr>))"
| "perform (SetRemoteDescription d) pc =
     (if pc_closed pc then None else Some (pc\<lparr>pc_remoteDescription := Some d\<rparr>))"
| "perform (AddIceCandidate cand) pc =
     (if pc_closed pc \<or> pc_remoteDescription pc = None then None
      else Some (pc\<lparr>pc_iceCandidates := pc_iceCandidates pc @ [cand]\<rparr>))"

text \<open>
  The operations of a chain, in the order they were invoked. The hook awaits every
  operation outside a \<open>try\<close>, so a rejected one is an unhandled rejection.
\<close>

fun run_operations ::
  "rtc_operation list \<Rightarrow> rtc_peer_connection \<times> string list \<Rightarrow> rtc_peer_connection \<times> string list" where
  "run_operations [] (pc, rej) = (pc, rej)"
| "run_operations (opn # ops) (pc, rej) =
     (case perform opn pc of
        None \<Rightarrow> run_operations ops (pc, rej @ [''InvalidStateError''])
      | Some pc' \<Rightarrow> run_operations ops (pc', rej))"

text \<open>Invoking an operation puts it at the end of the connection's chain.\<close>

definition chain :: "nat \<Rightarrow> rtc_operation \<Rightarrow> client \<Rightarrow> client" where
  "chain h opn c =
     (if h < length (heap c)
      then c\<lparr>heap := (heap c)[h := (heap c ! h)
                \<lparr>pc_operations := pc_operations (heap c ! h) @ [opn]\<rparr>]\<rparr>
      else c)"

text \<open>The browser runs the chain of a connection to its end.\<close>

definition settle :: "nat \<Rightarrow> client \<Rightarrow> client" where
  "settle h c =
     (if h < length (heap c)
      then (case run_operations (pc_operations (heap c ! h))
                   ((heap c ! h)\<lparr>pc_operations := []\<rparr>, rejections c) of
              (pc, rej) \<Rightarrow> c\<lparr>heap := (heap c)[h := pc], rejections := rej\<rparr>)
      else c)"

text \<open>An operation that is invoked and awaited.\<close>

definition setLocalDescription :: "nat \<Rightarrow> sdp \<Rightarrow> client \<Rightarrow> client" where
  "setLocalDescription h d c = settle h (chain h (SetLocalDescription d) c)"

definition setRemoteDescription :: "nat \<Rightarrow> sdp \<Rightarrow> client \<Rightarrow> client" where
  "setRemoteDescription h d c = settle h (chain h (SetRemoteDescription d) c)"

definition addIceCandidate :: "nat \<Rightarrow> candidate \<Rightarrow> client \<Rightarrow> client" where
  "addIceCandidate h cand c = settle h (chain h (AddIceCandidate cand) c)"

text \<open>\<open>close()\<close> closes the connection; what is pending on it is abandoned.\<close>

definition close :: "nat \<Rightarrow> client \<Rightarrow> client" where
  "close h c =
     (if h < length (heap c)
      then c\<lparr>heap := (heap c)[h := (heap c ! h)\<lparr>pc_closed := True, pc_operations := []\<rparr>]\<rparr>
      else c)"

subsection \<open>The hook\<close>

definition createPeerConnection :: "string \<Rightarrow> client \<Rightarrow> nat \<times> client" where
  "createPeerConnection userId c =
     (length (heap c),
      c\<lparr>heap := heap c @
          [\<lparr>pc_userId = userId,
            pc_tracks = (case localStreamRef c of None \<Rightarrow> [] | Some stream \<Rightarrow> stream),
            pc_localDescription = None, pc_remoteDescription = None,
            pc_iceCandidates = [], pc_closed = False, pc_operations = []\<rparr>]\<rparr>)"

text \<open>
  The two callbacks that \<open>createPeerConnection\<close> installs on the connection, for the
  \<open>userId\<close> it was created with.
\<close>

definition ontrack :: "nat \<Rightarrow> media_stream \<Rightarrow> client \<Rightarrow> client" where
  "ontrack h remoteStream c =
     (if usable (heap c) h
      then c\<lparr>remoteStreams := AList.update (pc_userId (heap c ! h)) remoteStream (remoteStreams c)\<rparr>
      else c)"

definition onicecandidate :: "nat \<Rightarrow> candidate option \<Rightarrow> client \<Rightarrow> client" where
  "onicecandidate h cand c =
     (if usable (heap c) h
      then (case cand of
              None \<Rightarrow> c
            | Some x \<Rightarrow> c\<lparr>emitted := emitted c @ [EmitWebrtcIceCandidate (pc_userId (heap c ! h)) x]\<rparr>)
      else c)"

text \<open>\<open>media\<close> is what \<open>getUserMedia\<close> gives: \<open>None\<close> when the browser refuses.\<close>

definition startCall :: "media_stream option \<Rightarrow> client \<Rightarrow> client" where
  "startCall media c =
     (case media of
        None \<Rightarrow> c
      | Some stream \<Rightarrow>
          c\<lparr>localStreamRef := Some stream, localStream := Some stream, isCallActive := True,
            emitted := emitted c @ [EmitStartVideoCall]\<rparr>)"

definition handleOffer :: "sdp \<Rightarrow> string \<Rightarrow> sdp \<Rightarrow> client \<Rightarrow> client" where
  "handleOffer offer fromUserId answer c =
     (let (peerConnection, c1) = createPeerConnection fromUserId c;
          c2 = c1\<lparr>peersRef := AList.update fromUserId
                    \<lparr>peer_userId = fromUserId, peer_connection = peerConnection\<rparr> (peersRef c1)\<rparr>;
          c3 = c2\<lparr>peers := peersRef c2\<rparr>;
          c4 = setRemoteDescription peerConnection offer c3;
          c5 = setLocalDescription peerConnection answer c4
      in c5\<lparr>emitted := emitted c5 @ [EmitWebrtcAnswer fromUserId answer]\<rparr>)"

definition handleAnswer :: "sdp \<Rightarrow> string \<Rightarrow> client \<Rightarrow> client" where
  "handleAnswer answer fromUserId c =
     (case map_of (peersRef c) fromUserId of
        None \<Rightarrow> c
      | Some peer \<Rightarrow> setRemoteDescription (peer_connection peer) answer c)"

text \<open>
  \<open>handleOffer\<close> up to \<open>await peerConnection.setRemoteDescription(...)\<close>: the peer is
  stored and the operation is pending. The rest of the handler runs when the operation
  has settled, and stops there when it was not fulfilled.
\<close>

definition handleOffer_begin :: "sdp \<Rightarrow> string \<Rightarrow> client \<Rightarrow> nat \<times> client" where
  "handleOffer_begin offer fromUserId c =
     (let (peerConnection, c1) = createPeerConnection fromUserId c;
          c2 = c1\<lparr>peersRef := AList.update fromUserId
                    \<lparr>peer_userId = fromUserId, peer_connection = peerConnection\<rparr> (peersRef c1)\<rparr>;
          c3 = c2\<lparr>peers := peersRef c2\<rparr>
      in (peerConnection, chain peerConnection (SetRemoteDescription offer) c3))"

definition handleOffer_resume :: "nat \<Rightarrow> string \<Rightarrow> sdp \<Rightarrow> client \<Rightarrow> client" where
  "handleOffer_resume peerConnection fromUserId answer c =
     (let c4 = settle peerConnection c
      in if usable (heap c4) peerConnection
         then let c5 = setLocalDescription peerConnection answer c4
              in c5\<lparr>emitted := emitted c5 @ [EmitWebrtcAnswer fromUserId answer]\<rparr>
         else c4)"

text \<open>\<open>handleAnswer\<close> up to \<open>await peer.connection.setRemoteDescription(...)\<close>.\<close>

definition handleAnswer_begin :: "sdp \<Rightarrow> string \<Rightarrow> client \<Rightarrow> client" where
  "handleAnswer_begin answer fromUserId c =
     (case map_of (peersRef c) fromUserId of
        None \<Rightarrow> c
      | Some peer \<Rightarrow> chain (peer_connection peer) (SetRemoteDescription answer) c)"

definition handleIceCandidate :: "candidate \<Rightarrow> string \<Rightarrow> client \<Rightarrow> client" where
  "handleIceCandidate cand fromUserId c =
     (case map_of (peersRef c) fromUserId of
        None \<Rightarrow> c
      | Some peer \<Rightarrow> addIceCandidate (peer_connection peer) cand c)"

definition initiateCall :: "string \<Rightarrow> sdp \<Rightarrow> client \<Rightarrow> client" where
  "initiateCall targetUserId offer c =
     (let (peerConnection, c1) = createPeerConnection targetUserId c;
          c2 = c1\<lparr>peersRef := AList.update targetUserId
                    \<lparr>peer_userId = targetUserId, peer_connection = peerConnection\<rparr> (peersRef c1)\<rparr>;
          c3 = c2\<lparr>peers := peersRef c2\<rparr>;
          c4 = setLocalDescription peerConnection offer c3
      in c4\<lparr>emitted := emitted c4 @ [EmitWebrtcOffer targetUserId offer]\<rparr>)"

text \<open>The handlers of \<open>video-call-started\<close>, \<open>user-joined\<close> and \<open>user-left\<close>.\<close>

definition on_video_call_started :: "string \<Rightarrow> sdp \<Rightarrow> client \<Rightarrow> client" where
  "on_video_call_started initiatorId offer c =
     (if isCallActive c \<and> initiatorId \<noteq> socketId c then initiateCall initiatorId offer c else c)"

definition on_user_joined :: "string \<Rightarrow> sdp \<Rightarrow> client \<Rightarrow> client" where
  "on_user_joined userId offer c = (if isCallActive c then initiateCall userId offer c else c)"

definition on_user_left :: "string \<Rightarrow> client \<Rightarrow> client" where
  "on_user_left userId c =
     (case map_of (peersRef c) userId of
        None \<Rightarrow> c
      | Some peer \<Rightarrow>
          let c1 = close (peer_connection peer) c;
              c2 = c1\<lparr>peersRef := AList.delete userId (peersRef c1)\<rparr>;
              c3 = c2\<lparr>peers := peersRef c2\<rparr>
          in c3\<lparr>remoteStreams := AList.delete userId (remoteStreams c3)\<rparr>)"

text \<open>
  The states of a link as the specification names them, read off the hook's state: a
  link to \<open>uid\<close> is Connected when \<open>peersRef\<close> holds a connection for \<open>uid\<close> that is open
  and has both descriptions.
\<close>

definition link :: "client \<Rightarrow> string \<Rightarrow> rtc_peer_connection option" where
  "link c uid =
     (case map_of (peersRef c) uid of
        None \<Rightarrow> None
      | Some peer \<Rightarrow>
          if peer_connection peer < length (heap c) then Some (heap c ! peer_connection peer)
          else None)"

definition Connected :: "client \<Rightarrow> string \<Rightarrow> bool" where
  "Connected c uid =
     (case link c uid of
        None \<Rightarrow> False
      | Some pc \<Rightarrow>
          pc_localDescription pc \<noteq> None \<and> pc_remoteDescription pc \<noteq> None \<and> \<not> pc_closed pc)"

text \<open>The initiator's side of a call: the offers of several members, one after the other.\<close>

definition handleOffers :: "(string \<times> sdp \<times> sdp) list \<Rightarrow> client \<Rightarrow> client" where
  "handleOffers xs c = foldl (\<lambda>c (fromUserId, offer, answer). handleOffer offer fromUserId answer c) c xs"

text \<open>No operation is pending on any connection.\<close>

definition quiescent :: "client \<Rightarrow> bool" where
  "quiescent c = list_all (\<lambda>pc. pc_operations pc = []) (heap c)"

text \<open>Every connection that \<open>peersRef\<close> holds is in the heap.\<close>

definition peers_in_heap :: "client \<Rightarrow> bool" where
  "peers_in_heap c = list_all (\<lambda>(uid, peer). peer_connection peer < length (heap c)) (peersRef c)"

section \<open>Facts about the server\<close>

lemma exec_Nil: "exec [] = server0"
  by (simp add: exec_def)

lemma exec_snoc: "exec (evs @ [ev]) = fst (step (exec evs) ev)"
  by (simp add: exec_def)


subsection \<open>What each handler does to the two maps\<close>

lemma socket_join_rooms: "rooms (socket_join s r st) = rooms st"
  by (simp add: socket_join_def split: option.split)


lemma join_room_rooms:
  "map_of (rooms (fst (join_room s r n v t st))) =
     (map_of (rooms st))(r \<mapsto>
        (case map_of (rooms st) r of
           None \<Rightarrow> \<lparr>room_id = r, room_users = [], room_messages = [], room_isVideoCall = v\<rparr>
         | Some rm \<Rightarrow> rm)
        \<lparr>room_users := AList.update s
            \<lparr>member_id = s, member_username = n, member_joinedAt = t\<rparr>
            (room_users (case map_of (rooms st) r of
               None \<Rightarrow> \<lparr>room_id = r, room_users = [], room_messages = [], room_isVideoCall = v\<rparr>
             | Some rm \<Rightarrow> rm))\<rparr>)"
  by (cases "map_of (rooms st) r")
     (simp_all add: join_room_def Let_def socket_join_rooms update_conv')



lemma send_message_rooms:
  "map_of (rooms (fst (send_message s m u t st))) r =
     (case map_of (users st) s of
        None \<Rightarrow> map_of (rooms st) r
      | Some user \<Rightarrow>
          (if r = user_roomId user
           then map_option
                  (\<lambda>rm. rm\<lparr>room_messages := room_messages rm @
                     [\<lparr>msg_id = u, msg_username = user_username user, msg_message = m,
                       msg_timestamp = t, msg_userId = s\<rparr>]\<rparr>)
                  (map_of (rooms st) r)
           else map_of (rooms st) r))"
  by (simp add: send_message_def Let_def update_conv' split: option.split)


lemma disconnect_rooms:
  "map_of (rooms (fst (disconnect s st))) r =
     (case map_of (users st) s of
        None \<Rightarrow> map_of (rooms st) r
      | Some user \<Rightarrow>
          (if r = user_roomId user
           then (case map_of (rooms st) r of
                   None \<Rightarrow> None
                 | Some rm \<Rightarrow>
                     if AList.delete s (room_users rm) = [] then None
                     else Some (rm\<lparr>room_users := AList.delete s (room_users rm)\<rparr>))
           else map_of (rooms st) r))"
  by (simp add: disconnect_def Let_def update_conv' delete_conv' split: option.split)

lemma membership_join:
  "membership (fst (join_room s r n v t st)) r' =
     (if r' = r
      then AList.update s \<lparr>member_id = s, member_username = n, member_joinedAt = t\<rparr>
             (membership st r)
      else membership st r')"
  unfolding membership_def join_room_rooms by (simp split: option.split)


lemma membership_disconnect:
  "membership (fst (disconnect s st)) r =
     (case map_of (users st) s of
        None \<Rightarrow> membership st r
      | Some user \<Rightarrow>
          if r = user_roomId user then AList.delete s (membership st r) else membership st r)"
  unfolding membership_def disconnect_rooms by (simp split: option.split)


subsection \<open>The invariants hold\<close>

lemma step_relay_rooms:
  "ev \<in> {Connection s, WebrtcOffer s x p, WebrtcAnswer s x p, WebrtcIceCandidate s x p,
          StartVideoCall s, EndVideoCall s} \<Longrightarrow>
   rooms (fst (step st ev)) = rooms st \<and> users (fst (step st ev)) = users st"
  by (auto simp: connection_def webrtc_offer_def webrtc_answer_def webrtc_ice_candidate_def
      start_video_call_def end_video_call_def split: option.split)

lemma rooms_nonempty_join: "rooms_nonempty st \<Longrightarrow> rooms_nonempty (fst (join_room s r n v t st))"
  unfolding rooms_nonempty_def join_room_rooms by (auto split: option.splits)

lemma rooms_nonempty_send: "rooms_nonempty st \<Longrightarrow> rooms_nonempty (fst (send_message s m u t st))"
  unfolding rooms_nonempty_def send_message_rooms by (auto split: option.splits if_splits)

lemma rooms_nonempty_disconnect: "rooms_nonempty st \<Longrightarrow> rooms_nonempty (fst (disconnect s st))"
  unfolding rooms_nonempty_def disconnect_rooms by (auto split: option.splits if_splits)

lemma rooms_nonempty_sids: "rooms_nonempty (st\<lparr>sids := x\<rparr>) = rooms_nonempty st"
  by (simp add: rooms_nonempty_def)

lemma rooms_nonempty_step: "rooms_nonempty st \<Longrightarrow> rooms_nonempty (fst (step st ev))"
proof (cases ev)
  case (JoinRoom s r n v t)
  then show "rooms_nonempty st \<Longrightarrow> ?thesis" by (simp add: rooms_nonempty_join)
next
  case (SendMessage s m u t)
  then show "rooms_nonempty st \<Longrightarrow> ?thesis" by (simp add: rooms_nonempty_send)
next
  case (Disconnect s)
  then show "rooms_nonempty st \<Longrightarrow> ?thesis"
    by (simp add: rooms_nonempty_disconnect rooms_nonempty_sids)
qed (insert step_relay_rooms [of ev _ _ _ st], auto simp: rooms_nonempty_def)

lemma rooms_nonempty_exec: "rooms_nonempty (exec evs)"
proof (induction evs rule: rev_induct)
  case Nil
  show ?case by (simp add: exec_Nil rooms_nonempty_def server0_def)
next
  case (snoc ev evs)
  then show ?case by (simp add: exec_snoc rooms_nonempty_step)
qed















subsection \<open>Connected members are in the socket.io room of their room\<close>









section \<open>Properties of the registry\<close>

lemmas server_eval =
  exec_def server0_def connection_def socket_join_def join_room_def send_message_def
  webrtc_offer_def webrtc_answer_def webrtc_ice_candidate_def start_video_call_def
  end_video_call_def disconnect_def membership_def is_member_def rooms_of_def in_room_def
  Let_def

text \<open>
  C4. In every reachable state a room identifier is present in \<open>rooms\<close> if and only if
  the room's membership is not empty, and the \<open>disconnect\<close> handler that removes the last
  member of a room deletes the room in the same step.
\<close>

theorem room_present_iff_nonempty:
  "(map_of (rooms (exec evs)) r \<noteq> None) = (membership (exec evs) r \<noteq> []) \<and>
   (map_of (users st) s = Some u \<and> AList.delete s (membership st (user_roomId u)) = [] \<longrightarrow>
      map_of (rooms (fst (disconnect s st))) (user_roomId u) = None)"
proof (intro conjI impI)
  show "(map_of (rooms (exec evs)) r \<noteq> None) = (membership (exec evs) r \<noteq> [])"
    using rooms_nonempty_exec [of evs]
    by (auto simp: rooms_nonempty_def membership_def split: option.splits)
next
  assume "map_of (users st) s = Some u \<and> AList.delete s (membership st (user_roomId u)) = []"
  then show "map_of (rooms (fst (disconnect s st))) (user_roomId u) = None"
    by (auto simp: disconnect_rooms membership_def split: option.splits)
qed

theorem room_present_iff_nonempty_witness:
  "map_of (rooms (exec [Connection ''a'', JoinRoom ''a'' ''r'' ''ann'' False 1,
                        Connection ''b'', JoinRoom ''b'' ''r'' ''bob'' False 2,
                        Disconnect ''a''])) ''r'' \<noteq> None \<and>
   membership (exec [Connection ''a'', JoinRoom ''a'' ''r'' ''ann'' False 1,
                     Connection ''b'', JoinRoom ''b'' ''r'' ''bob'' False 2,
                     Disconnect ''a'']) ''r'' =
     [(''b'', \<lparr>member_id = ''b'', member_username = ''bob'', member_joinedAt = 2\<rparr>)] \<and>
   map_of (users (exec [Connection ''a'', JoinRoom ''a'' ''r'' ''ann'' False 1,
                        Connection ''b'', JoinRoom ''b'' ''r'' ''bob'' False 2,
                        Disconnect ''a''])) ''b'' =
     Some \<lparr>user_roomId = ''r'', user_username = ''bob''\<rparr> \<and>
   map_of (rooms (fst (disconnect ''b''
         (exec [Connection ''a'', JoinRoom ''a'' ''r'' ''ann'' False 1,
                Connection ''b'', JoinRoom ''b'' ''r'' ''bob'' False 2,
                Disconnect ''a''])))) ''r'' = None"
  using room_present_iff_nonempty
    [of "[Connection ''a'', JoinRoom ''a'' ''r'' ''ann'' False 1,
          Connection ''b'', JoinRoom ''b'' ''r'' ''bob'' False 2, Disconnect ''a'']"
        "''r''"
        "exec [Connection ''a'', JoinRoom ''a'' ''r'' ''ann'' False 1,
               Connection ''b'', JoinRoom ''b'' ''r'' ''bob'' False 2, Disconnect ''a'']"
        "''b''" "\<lparr>user_roomId = ''r'', user_username = ''bob''\<rparr>"]
  by (simp add: server_eval)

text \<open>
  C7. A join to a room identifier that the registry does not hold creates the room with
  the video flag of this call, no messages and the joiner as its only member. A join to
  a room that exists changes nothing of the room but its membership: the entry of the
  connection is added, or replaces the entry the connection already had (same position,
  no failure). No other room changes.
\<close>

theorem join_room_frame:
  "(map_of (rooms st) r = None \<longrightarrow>
      map_of (rooms (fst (join_room s r n v t st))) r =
        Some \<lparr>room_id = r,
              room_users = [(s, \<lparr>member_id = s, member_username = n, member_joinedAt = t\<rparr>)],
              room_messages = [], room_isVideoCall = v\<rparr>) \<and>
   (map_of (rooms st) r = Some rm \<longrightarrow>
      map_of (rooms (fst (join_room s r n v t st))) r =
        Some (rm\<lparr>room_users :=
                AList.update s \<lparr>member_id = s, member_username = n, member_joinedAt = t\<rparr>
                  (room_users rm)\<rparr>) \<and>
      map_option room_isVideoCall (map_of (rooms (fst (join_room s r n v t st))) r) =
        Some (room_isVideoCall rm) \<and>
      map_option room_messages (map_of (rooms (fst (join_room s r n v t st))) r) =
        Some (room_messages rm) \<and>
      map_of (membership (fst (join_room s r n v t st)) r) =
        (map_of (room_users rm))
          (s \<mapsto> \<lparr>member_id = s, member_username = n, member_joinedAt = t\<rparr>) \<and>
      (map_of (room_users rm) s \<noteq> None \<longrightarrow>
         map fst (membership (fst (join_room s r n v t st)) r) = map fst (room_users rm))) \<and>
   (r' \<noteq> r \<longrightarrow> map_of (rooms (fst (join_room s r n v t st))) r' = map_of (rooms st) r')"
proof (intro conjI impI)
  assume "map_of (rooms st) r = None"
  then show "map_of (rooms (fst (join_room s r n v t st))) r =
        Some \<lparr>room_id = r,
              room_users = [(s, \<lparr>member_id = s, member_username = n, member_joinedAt = t\<rparr>)],
              room_messages = [], room_isVideoCall = v\<rparr>"
    by (simp add: join_room_rooms)
next
  assume h: "map_of (rooms st) r = Some rm"
  then show "map_of (rooms (fst (join_room s r n v t st))) r =
        Some (rm\<lparr>room_users :=
                AList.update s \<lparr>member_id = s, member_username = n, member_joinedAt = t\<rparr>
                  (room_users rm)\<rparr>)"
    by (simp add: join_room_rooms)
  from h show "map_option room_isVideoCall (map_of (rooms (fst (join_room s r n v t st))) r) =
        Some (room_isVideoCall rm)"
    by (simp add: join_room_rooms)
  from h show "map_option room_messages (map_of (rooms (fst (join_room s r n v t st))) r) =
        Some (room_messages rm)"
    by (simp add: join_room_rooms)
  from h show "map_of (membership (fst (join_room s r n v t st)) r) =
        (map_of (room_users rm))
          (s \<mapsto> \<lparr>member_id = s, member_username = n, member_joinedAt = t\<rparr>)"
    by (simp add: membership_join update_conv') (simp add: membership_def)
  assume "map_of (room_users rm) s \<noteq> None"
  then have "s \<in> set (map fst (room_users rm))"
    by (metis map_of_eq_None_iff set_map)
  with h show "map fst (membership (fst (join_room s r n v t st)) r) = map fst (room_users rm)"
    by (simp add: membership_join update_keys) (simp add: membership_def)
next
  assume "r' \<noteq> r"
  then show "map_of (rooms (fst (join_room s r n v t st))) r' = map_of (rooms st) r'"
    by (simp add: join_room_rooms)
qed

theorem join_room_frame_witness:
  "map_of (rooms (exec [Connection ''a'', JoinRoom ''a'' ''r'' ''ann'' True 1,
                        SendMessage ''a'' ''hi'' ''m1'' 2])) ''r'' =
     Some \<lparr>room_id = ''r'',
           room_users = [(''a'', \<lparr>member_id = ''a'', member_username = ''ann'', member_joinedAt = 1\<rparr>)],
           room_messages = [\<lparr>msg_id = ''m1'', msg_username = ''ann'', msg_message = ''hi'',
                             msg_timestamp = 2, msg_userId = ''a''\<rparr>],
           room_isVideoCall = True\<rparr> \<and>
   map_of (rooms (fst (join_room ''a'' ''r'' ''anna'' False 3
       (exec [Connection ''a'', JoinRoom ''a'' ''r'' ''ann'' True 1,
              SendMessage ''a'' ''hi'' ''m1'' 2])))) ''r'' =
     Some \<lparr>room_id = ''r'',
           room_users = [(''a'', \<lparr>member_id = ''a'', member_username = ''anna'', member_joinedAt = 3\<rparr>)],
           room_messages = [\<lparr>msg_id = ''m1'', msg_username = ''ann'', msg_message = ''hi'',
                             msg_timestamp = 2, msg_userId = ''a''\<rparr>],
           room_isVideoCall = True\<rparr> \<and>
   map_of (rooms (exec [Connection ''a'', JoinRoom ''a'' ''r'' ''ann'' True 1,
                        SendMessage ''a'' ''hi'' ''m1'' 2])) ''q'' = None \<and>
   map_of (rooms (fst (join_room ''a'' ''q'' ''anna'' False 3
       (exec [Connection ''a'', JoinRoom ''a'' ''r'' ''ann'' True 1,
              SendMessage ''a'' ''hi'' ''m1'' 2])))) ''q'' =
     Some \<lparr>room_id = ''q'',
           room_users = [(''a'', \<lparr>member_id = ''a'', member_username = ''anna'', member_joinedAt = 3\<rparr>)],
           room_messages = [], room_isVideoCall = False\<rparr>"
  using join_room_frame
    [of "exec [Connection ''a'', JoinRoom ''a'' ''r'' ''ann'' True 1,
               SendMessage ''a'' ''hi'' ''m1'' 2]"
        "''r''" "''a''" "''anna''" False 3
        "\<lparr>room_id = ''r'',
           room_users = [(''a'', \<lparr>member_id = ''a'', member_username = ''ann'', member_joinedAt = 1\<rparr>)],
           room_messages = [\<lparr>msg_id = ''m1'', msg_username = ''ann'', msg_message = ''hi'',
                             msg_timestamp = 2, msg_userId = ''a''\<rparr>],
           room_isVideoCall = True\<rparr>" "''q''"]
    join_room_frame
    [of "exec [Connection ''a'', JoinRoom ''a'' ''r'' ''ann'' True 1,
               SendMessage ''a'' ''hi'' ''m1'' 2]"
        "''q''" "''a''" "''anna''" False 3 _ "''r''"]
  by (simp add: server_eval)

text \<open>
  C6. The member list that \<open>user-joined\<close> and \<open>room-joined\<close> carry is the membership of
  the room after the insertion, which holds the joiner; the member list that \<open>user-left\<close>
  carries is the membership of the room after the removal, which does not hold the
  leaver. Both hold from every state, so after every sequence of joins and leaves.
\<close>

theorem events_carry_membership:
  "(\<exists>ms fl. snd (join_room s r n v t st) =
      [(SocketTo r s, UserJoined s n (map snd (membership (fst (join_room s r n v t st)) r))),
       (SocketEmit s,
        RoomJoined r (map snd (membership (fst (join_room s r n v t st)) r)) ms fl)]) \<and>
   is_member (fst (join_room s r n v t st)) s r \<and>
   (map_of (users st) s = Some u \<longrightarrow>
      membership (fst (disconnect s st)) (user_roomId u) =
        AList.delete s (membership st (user_roomId u)) \<and>
      \<not> is_member (fst (disconnect s st)) s (user_roomId u) \<and>
      snd (disconnect s st) =
        (if membership (fst (disconnect s st)) (user_roomId u) = [] then []
         else [(SocketTo (user_roomId u) s,
                UserLeft s (user_username u)
                  (map snd (membership (fst (disconnect s st)) (user_roomId u))))]))"
proof (intro conjI impI)
  show "\<exists>ms fl. snd (join_room s r n v t st) =
      [(SocketTo r s, UserJoined s n (map snd (membership (fst (join_room s r n v t st)) r))),
       (SocketEmit s,
        RoomJoined r (map snd (membership (fst (join_room s r n v t st)) r)) ms fl)]"
    unfolding membership_join
    by (cases "map_of (rooms st) r") (simp_all add: join_room_def Let_def membership_def)
  show "is_member (fst (join_room s r n v t st)) s r"
    by (simp add: is_member_def membership_join update_conv')
next
  assume h: "map_of (users st) s = Some u"
  then show m: "membership (fst (disconnect s st)) (user_roomId u) =
        AList.delete s (membership st (user_roomId u))"
    by (simp add: membership_disconnect)
  then show "\<not> is_member (fst (disconnect s st)) s (user_roomId u)"
    by (simp add: is_member_def delete_conv')
  from h show "snd (disconnect s st) =
        (if membership (fst (disconnect s st)) (user_roomId u) = [] then []
         else [(SocketTo (user_roomId u) s,
                UserLeft s (user_username u)
                  (map snd (membership (fst (disconnect s st)) (user_roomId u))))])"
    unfolding m
    by (cases "map_of (rooms st) (user_roomId u)")
       (simp_all add: disconnect_def Let_def membership_def)
qed

theorem events_carry_membership_witness:
  "snd (join_room ''b'' ''r'' ''bob'' False 2
          (exec [Connection ''a'', JoinRoom ''a'' ''r'' ''ann'' False 1, Connection ''b''])) =
     [(SocketTo ''r'' ''b'',
       UserJoined ''b'' ''bob''
         [\<lparr>member_id = ''a'', member_username = ''ann'', member_joinedAt = 1\<rparr>,
          \<lparr>member_id = ''b'', member_username = ''bob'', member_joinedAt = 2\<rparr>]),
      (SocketEmit ''b'',
       RoomJoined ''r''
         [\<lparr>member_id = ''a'', member_username = ''ann'', member_joinedAt = 1\<rparr>,
          \<lparr>member_id = ''b'', member_username = ''bob'', member_joinedAt = 2\<rparr>] [] False)] \<and>
   map_of (users (exec [Connection ''a'', JoinRoom ''a'' ''r'' ''ann'' False 1,
                        Connection ''b'', JoinRoom ''b'' ''r'' ''bob'' False 2])) ''a'' =
     Some \<lparr>user_roomId = ''r'', user_username = ''ann''\<rparr> \<and>
   snd (disconnect ''a''
          (exec [Connection ''a'', JoinRoom ''a'' ''r'' ''ann'' False 1,
                 Connection ''b'', JoinRoom ''b'' ''r'' ''bob'' False 2])) =
     [(SocketTo ''r'' ''a'',
       UserLeft ''a'' ''ann''
         [\<lparr>member_id = ''b'', member_username = ''bob'', member_joinedAt = 2\<rparr>])]"
  using events_carry_membership
    [of "''b''" "''r''" "''bob''" False 2
        "exec [Connection ''a'', JoinRoom ''a'' ''r'' ''ann'' False 1, Connection ''b'']"]
    events_carry_membership
    [of "''a''" "''r''" "''ann''" False 1
        "exec [Connection ''a'', JoinRoom ''a'' ''r'' ''ann'' False 1,
               Connection ''b'', JoinRoom ''b'' ''r'' ''bob'' False 2]"
        "\<lparr>user_roomId = ''r'', user_username = ''ann''\<rparr>"]
  by (simp add: server_eval)



section \<open>Properties of the session coordinator\<close>

lemma pc_operations_id:
  "pc_operations pc = [] \<Longrightarrow> pc\<lparr>pc_operations := []\<rparr> = pc"
  by (cases pc) simp

lemma settle_chain_idle:
  assumes "h < length (heap c)" and "pc_operations (heap c ! h) = []"
  shows "settle h (chain h opn c) =
     (case perform opn (heap c ! h) of
        None \<Rightarrow> c\<lparr>rejections := rejections c @ [''InvalidStateError'']\<rparr>
      | Some pc' \<Rightarrow> c\<lparr>heap := (heap c)[h := pc']\<rparr>)"
proof -
  let ?pc = "heap c ! h"
  have id: "?pc\<lparr>pc_operations := []\<rparr> = ?pc" using assms(2) by (rule pc_operations_id)
  have ch: "chain h opn c = c\<lparr>heap := (heap c)[h := ?pc\<lparr>pc_operations := [opn]\<rparr>]\<rparr>"
    using assms by (simp add: chain_def)
  have run: "run_operations [opn] (?pc, rejections c) =
     (case perform opn ?pc of
        None \<Rightarrow> (?pc, rejections c @ [''InvalidStateError''])
      | Some pc' \<Rightarrow> (pc', rejections c))"
    by (simp split: option.split)
  have "settle h (chain h opn c) =
     (case run_operations [opn] (?pc, rejections c) of
        (pc, rej) \<Rightarrow> c\<lparr>heap := (heap c)[h := pc], rejections := rej\<rparr>)"
    using assms(1) by (simp add: ch settle_def id)
  also have "\<dots> = (case perform opn ?pc of
        None \<Rightarrow> c\<lparr>rejections := rejections c @ [''InvalidStateError'']\<rparr>
      | Some pc' \<Rightarrow> c\<lparr>heap := (heap c)[h := pc']\<rparr>)"
    unfolding run by (simp split: option.split)
  finally show ?thesis .
qed

lemma setRemoteDescription_idle:
  "h < length (heap c) \<Longrightarrow> pc_operations (heap c ! h) = [] \<Longrightarrow> \<not> pc_closed (heap c ! h) \<Longrightarrow>
   setRemoteDescription h d c =
     c\<lparr>heap := (heap c)[h := (heap c ! h)\<lparr>pc_remoteDescription := Some d\<rparr>]\<rparr>"
  by (simp add: setRemoteDescription_def settle_chain_idle)

lemma setLocalDescription_idle:
  "h < length (heap c) \<Longrightarrow> pc_operations (heap c ! h) = [] \<Longrightarrow> \<not> pc_closed (heap c ! h) \<Longrightarrow>
   setLocalDescription h d c =
     c\<lparr>heap := (heap c)[h := (heap c ! h)\<lparr>pc_localDescription := Some d\<rparr>]\<rparr>"
  by (simp add: setLocalDescription_def settle_chain_idle)

lemma addIceCandidate_idle:
  "h < length (heap c) \<Longrightarrow> pc_operations (heap c ! h) = [] \<Longrightarrow>
   addIceCandidate h cand c =
     (if pc_closed (heap c ! h) \<or> pc_remoteDescription (heap c ! h) = None
      then c\<lparr>rejections := rejections c @ [''InvalidStateError'']\<rparr>
      else c\<lparr>heap := (heap c)[h := (heap c ! h)
              \<lparr>pc_iceCandidates := pc_iceCandidates (heap c ! h) @ [cand]\<rparr>]\<rparr>)"
  by (simp add: addIceCandidate_def settle_chain_idle)

lemma handleOffer_eq:
  "handleOffer offer f answer c =
     c\<lparr>heap := heap c @
          [\<lparr>pc_userId = f,
            pc_tracks = (case localStreamRef c of None \<Rightarrow> [] | Some stream \<Rightarrow> stream),
            pc_localDescription = Some answer, pc_remoteDescription = Some offer,
            pc_iceCandidates = [], pc_closed = False, pc_operations = []\<rparr>],
       peersRef := AList.update f \<lparr>peer_userId = f, peer_connection = length (heap c)\<rparr> (peersRef c),
       peers := AList.update f \<lparr>peer_userId = f, peer_connection = length (heap c)\<rparr> (peersRef c),
       emitted := emitted c @ [EmitWebrtcAnswer f answer]\<rparr>"
  by (simp add: handleOffer_def createPeerConnection_def Let_def setRemoteDescription_idle
      setLocalDescription_idle nth_append)

lemma initiateCall_eq:
  "initiateCall target offer c =
     c\<lparr>heap := heap c @
          [\<lparr>pc_userId = target,
            pc_tracks = (case localStreamRef c of None \<Rightarrow> [] | Some stream \<Rightarrow> stream),
            pc_localDescription = Some offer, pc_remoteDescription = None,
            pc_iceCandidates = [], pc_closed = False, pc_operations = []\<rparr>],
       peersRef := AList.update target \<lparr>peer_userId = target, peer_connection = length (heap c)\<rparr> (peersRef c),
       peers := AList.update target \<lparr>peer_userId = target, peer_connection = length (heap c)\<rparr> (peersRef c),
       emitted := emitted c @ [EmitWebrtcOffer target offer]\<rparr>"
  by (simp add: initiateCall_def createPeerConnection_def Let_def setLocalDescription_idle nth_append)

lemmas client_eval =
  client0_def usable_def startCall_def createPeerConnection_def chain_def handleOffer_begin_def
  handleOffer_eq initiateCall_eq handleAnswer_def setRemoteDescription_idle
  handleIceCandidate_def addIceCandidate_idle ontrack_def onicecandidate_def
  on_video_call_started_def on_user_joined_def on_user_left_def close_def link_def
  Connected_def handleOffers_def peers_in_heap_def quiescent_def Let_def

lemma handleOffer_heap:
  "heap (handleOffer offer f answer c) =
     heap c @
       [\<lparr>pc_userId = f,
         pc_tracks = (case localStreamRef c of None \<Rightarrow> [] | Some stream \<Rightarrow> stream),
         pc_localDescription = Some answer, pc_remoteDescription = Some offer,
         pc_iceCandidates = [], pc_closed = False, pc_operations = []\<rparr>]"
  by (simp add: handleOffer_eq)

lemma handleOffer_peersRef:
  "peersRef (handleOffer offer f answer c) =
     AList.update f \<lparr>peer_userId = f, peer_connection = length (heap c)\<rparr> (peersRef c)"
  by (simp add: handleOffer_eq)

lemma handleOffer_rest:
  "emitted (handleOffer offer f answer c) = emitted c @ [EmitWebrtcAnswer f answer] \<and>
   rejections (handleOffer offer f answer c) = rejections c \<and>
   remoteStreams (handleOffer offer f answer c) = remoteStreams c \<and>
   isCallActive (handleOffer offer f answer c) = isCallActive c \<and>
   localStreamRef (handleOffer offer f answer c) = localStreamRef c \<and>
   socketId (handleOffer offer f answer c) = socketId c"
  by (simp add: handleOffer_eq)

text \<open>
  C10. The handler of \<open>webrtc-offer\<close> always constructs a new connection and stores it in
  \<open>peersRef\<close> under the sender, in place of the entry the sender may have. Every
  connection that existed stays in the heap as it was: the connection that \<open>peersRef\<close>
  held for the sender is not closed, whatever its state.
\<close>

theorem handleOffer_overwrites:
  "heap (handleOffer offer f answer c) =
     heap c @
       [\<lparr>pc_userId = f,
         pc_tracks = (case localStreamRef c of None \<Rightarrow> [] | Some stream \<Rightarrow> stream),
         pc_localDescription = Some answer, pc_remoteDescription = Some offer,
         pc_iceCandidates = [], pc_closed = False, pc_operations = []\<rparr>] \<and>
   peersRef (handleOffer offer f answer c) =
     AList.update f \<lparr>peer_userId = f, peer_connection = length (heap c)\<rparr> (peersRef c) \<and>
   (map_of (peersRef c) f = Some old \<and> peer_connection old < length (heap c) \<longrightarrow>
      map_of (peersRef (handleOffer offer f answer c)) f =
        Some \<lparr>peer_userId = f, peer_connection = length (heap c)\<rparr> \<and>
      peer_connection old \<noteq> length (heap c) \<and>
      heap (handleOffer offer f answer c) ! peer_connection old = heap c ! peer_connection old \<and>
      pc_closed (heap (handleOffer offer f answer c) ! peer_connection old) =
        pc_closed (heap c ! peer_connection old))"
  by (simp add: handleOffer_heap handleOffer_peersRef update_conv' nth_append)

theorem handleOffer_overwrites_witness:
  "map_of (peersRef (initiateCall ''B'' ''offerA'' (startCall (Some [''cam'', ''mic'']) (client0 ''A''))))
      ''B'' = Some \<lparr>peer_userId = ''B'', peer_connection = 0\<rparr> \<and>
   peersRef (handleOffer ''offerB'' ''B'' ''answerA''
      (initiateCall ''B'' ''offerA'' (startCall (Some [''cam'', ''mic'']) (client0 ''A'')))) =
     [(''B'', \<lparr>peer_userId = ''B'', peer_connection = 1\<rparr>)] \<and>
   heap (handleOffer ''offerB'' ''B'' ''answerA''
      (initiateCall ''B'' ''offerA'' (startCall (Some [''cam'', ''mic'']) (client0 ''A'')))) =
     [\<lparr>pc_userId = ''B'', pc_tracks = [''cam'', ''mic''], pc_localDescription = Some ''offerA'',
       pc_remoteDescription = None, pc_iceCandidates = [], pc_closed = False, pc_operations = []\<rparr>,
      \<lparr>pc_userId = ''B'', pc_tracks = [''cam'', ''mic''], pc_localDescription = Some ''answerA'',
       pc_remoteDescription = Some ''offerB'', pc_iceCandidates = [], pc_closed = False, pc_operations = []\<rparr>]"
  using handleOffer_overwrites
    [of "''offerB''" "''B''" "''answerA''"
        "initiateCall ''B'' ''offerA'' (startCall (Some [''cam'', ''mic'']) (client0 ''A''))"
        "\<lparr>peer_userId = ''B'', peer_connection = 0\<rparr>"]
  by (simp add: client_eval)

lemma handleOffer_split:
  "handleOffer offer f answer c =
     handleOffer_resume (fst (handleOffer_begin offer f c)) f answer
       (snd (handleOffer_begin offer f c))"
  by (simp add: handleOffer_eq handleOffer_begin_def handleOffer_resume_def
      createPeerConnection_def Let_def settle_chain_idle setLocalDescription_idle usable_def
      nth_append)

lemma candidate_during_handleOffer:
  "heap (handleOffer_resume (fst (handleOffer_begin offer f c)) f answer
           (handleIceCandidate cand f (snd (handleOffer_begin offer f c)))) =
     heap c @
       [\<lparr>pc_userId = f,
         pc_tracks = (case localStreamRef c of None \<Rightarrow> [] | Some stream \<Rightarrow> stream),
         pc_localDescription = Some answer, pc_remoteDescription = Some offer,
         pc_iceCandidates = [cand], pc_closed = False, pc_operations = []\<rparr>]"
  by (simp add: handleOffer_begin_def handleOffer_resume_def handleIceCandidate_def
      addIceCandidate_def createPeerConnection_def setLocalDescription_def chain_def
      settle_def usable_def Let_def nth_append update_conv')

lemma candidate_during_handleAnswer:
  assumes "map_of (peersRef c) f = Some p" and "usable (heap c) (peer_connection p)"
    and "pc_operations (heap c ! peer_connection p) = []"
  shows "heap (handleIceCandidate cand f (handleAnswer_begin answer f c)) =
     (heap c)[peer_connection p := (heap c ! peer_connection p)
        \<lparr>pc_operations := [], pc_remoteDescription := Some answer,
          pc_iceCandidates := pc_iceCandidates (heap c ! peer_connection p) @ [cand]\<rparr>]"
  using assms
  by (simp add: handleAnswer_begin_def handleIceCandidate_def addIceCandidate_def chain_def
      settle_def usable_def)

lemma handleAnswer_candidates:
  assumes "quiescent c"
  shows "map pc_iceCandidates (heap (handleAnswer answer f c)) = map pc_iceCandidates (heap c)"
proof (cases "map_of (peersRef c) f")
  case None
  then show ?thesis by (simp add: handleAnswer_def)
next
  case (Some p)
  show ?thesis
  proof (cases "peer_connection p < length (heap c)")
    case True
    with assms have "pc_operations (heap c ! peer_connection p) = []"
      by (simp add: quiescent_def list_all_length)
    with Some True show ?thesis
      by (simp add: handleAnswer_def setRemoteDescription_def chain_def settle_def map_update
          list_update_same_conv)
  next
    case False
    with Some show ?thesis
      by (simp add: handleAnswer_def setRemoteDescription_def chain_def settle_def)
  qed
qed

text \<open>
  C1, as the hook has it. A candidate is handed at once to \<open>addIceCandidate\<close> of the
  connection that \<open>peersRef\<close> holds for the sender at the moment it arrives, which puts it
  on the connection's operations chain: a candidate that arrives while \<open>handleOffer\<close> or
  \<open>handleAnswer\<close> awaits \<open>setRemoteDescription\<close> on that connection runs after it and is
  added. A candidate that arrives when \<open>peersRef\<close> holds nothing for the sender is
  dropped and leaves the state as it was: the hook has no queue of its own, and neither
  \<open>handleOffer\<close> nor \<open>handleAnswer\<close> adds a candidate.
\<close>

theorem ice_candidate_applied_or_dropped:
  "(map_of (peersRef c) f = None \<longrightarrow> handleIceCandidate cand f c = c) \<and>
   (map_of (peersRef c) f = Some p \<longrightarrow>
      handleIceCandidate cand f c =
        settle (peer_connection p) (chain (peer_connection p) (AddIceCandidate cand) c)) \<and>
   heap (handleOffer_resume (fst (handleOffer_begin offer f c)) f answer
           (handleIceCandidate cand f (snd (handleOffer_begin offer f c)))) =
     heap c @
       [\<lparr>pc_userId = f,
         pc_tracks = (case localStreamRef c of None \<Rightarrow> [] | Some stream \<Rightarrow> stream),
         pc_localDescription = Some answer, pc_remoteDescription = Some offer,
         pc_iceCandidates = [cand], pc_closed = False, pc_operations = []\<rparr>] \<and>
   (map_of (peersRef c) f = Some p \<and> usable (heap c) (peer_connection p) \<and>
    pc_operations (heap c ! peer_connection p) = [] \<longrightarrow>
      heap (handleIceCandidate cand f (handleAnswer_begin answer f c)) =
        (heap c)[peer_connection p := (heap c ! peer_connection p)
           \<lparr>pc_operations := [], pc_remoteDescription := Some answer,
             pc_iceCandidates := pc_iceCandidates (heap c ! peer_connection p) @ [cand]\<rparr>]) \<and>
   map pc_iceCandidates (heap (handleOffer offer f answer c)) =
     map pc_iceCandidates (heap c) @ [[]] \<and>
   (quiescent c \<longrightarrow>
      map pc_iceCandidates (heap (handleAnswer answer f c)) = map pc_iceCandidates (heap c))"
proof (intro conjI impI)
  assume "map_of (peersRef c) f = None"
  then show "handleIceCandidate cand f c = c" by (simp add: handleIceCandidate_def)
next
  assume "map_of (peersRef c) f = Some p"
  then show "handleIceCandidate cand f c =
        settle (peer_connection p) (chain (peer_connection p) (AddIceCandidate cand) c)"
    by (simp add: handleIceCandidate_def addIceCandidate_def)
next
  show "heap (handleOffer_resume (fst (handleOffer_begin offer f c)) f answer
           (handleIceCandidate cand f (snd (handleOffer_begin offer f c)))) =
     heap c @
       [\<lparr>pc_userId = f,
         pc_tracks = (case localStreamRef c of None \<Rightarrow> [] | Some stream \<Rightarrow> stream),
         pc_localDescription = Some answer, pc_remoteDescription = Some offer,
         pc_iceCandidates = [cand], pc_closed = False, pc_operations = []\<rparr>]"
    by (rule candidate_during_handleOffer)
next
  assume "map_of (peersRef c) f = Some p \<and> usable (heap c) (peer_connection p) \<and>
    pc_operations (heap c ! peer_connection p) = []"
  then show "heap (handleIceCandidate cand f (handleAnswer_begin answer f c)) =
        (heap c)[peer_connection p := (heap c ! peer_connection p)
           \<lparr>pc_operations := [], pc_remoteDescription := Some answer,
             pc_iceCandidates := pc_iceCandidates (heap c ! peer_connection p) @ [cand]\<rparr>]"
    by (simp add: candidate_during_handleAnswer)
next
  show "map pc_iceCandidates (heap (handleOffer offer f answer c)) =
     map pc_iceCandidates (heap c) @ [[]]"
    by (simp add: handleOffer_heap)
next
  assume "quiescent c"
  then show "map pc_iceCandidates (heap (handleAnswer answer f c)) =
      map pc_iceCandidates (heap c)"
    by (rule handleAnswer_candidates)
qed

theorem ice_candidate_applied_or_dropped_witness:
  "map_of (peersRef (client0 ''A'')) ''B'' = None \<and>
   handleIceCandidate ''cand1'' ''B'' (client0 ''A'') = client0 ''A'' \<and>
   handleOffer_begin ''offerB'' ''B'' (client0 ''A'') =
     (0, (client0 ''A'')
           \<lparr>peersRef := [(''B'', \<lparr>peer_userId = ''B'', peer_connection = 0\<rparr>)],
            peers := [(''B'', \<lparr>peer_userId = ''B'', peer_connection = 0\<rparr>)],
            heap := [\<lparr>pc_userId = ''B'', pc_tracks = [], pc_localDescription = None,
                      pc_remoteDescription = None, pc_iceCandidates = [], pc_closed = False,
                      pc_operations = [SetRemoteDescription ''offerB'']\<rparr>]\<rparr>) \<and>
   heap (handleOffer_resume 0 ''B'' ''answerA''
           (handleIceCandidate ''cand2'' ''B'' (snd (handleOffer_begin ''offerB'' ''B'' (client0 ''A''))))) =
     [\<lparr>pc_userId = ''B'', pc_tracks = [], pc_localDescription = Some ''answerA'',
       pc_remoteDescription = Some ''offerB'', pc_iceCandidates = [''cand2''],
       pc_closed = False, pc_operations = []\<rparr>] \<and>
   map_of (peersRef (initiateCall ''B'' ''offerA'' (client0 ''A''))) ''B'' =
     Some \<lparr>peer_userId = ''B'', peer_connection = 0\<rparr> \<and>
   usable (heap (initiateCall ''B'' ''offerA'' (client0 ''A''))) 0 \<and>
   quiescent (initiateCall ''B'' ''offerA'' (client0 ''A'')) \<and>
   heap (handleIceCandidate ''cand3'' ''B''
           (handleAnswer_begin ''answerB'' ''B'' (initiateCall ''B'' ''offerA'' (client0 ''A'')))) =
     [\<lparr>pc_userId = ''B'', pc_tracks = [], pc_localDescription = Some ''offerA'',
       pc_remoteDescription = Some ''answerB'', pc_iceCandidates = [''cand3''],
       pc_closed = False, pc_operations = []\<rparr>] \<and>
   map pc_iceCandidates
     (heap (handleAnswer ''answerB'' ''B'' (initiateCall ''B'' ''offerA'' (client0 ''A'')))) = [[]]"
proof -
  have started: "handleOffer_begin ''offerB'' ''B'' (client0 ''A'') =
     (0, (client0 ''A'')
           \<lparr>peersRef := [(''B'', \<lparr>peer_userId = ''B'', peer_connection = 0\<rparr>)],
            peers := [(''B'', \<lparr>peer_userId = ''B'', peer_connection = 0\<rparr>)],
            heap := [\<lparr>pc_userId = ''B'', pc_tracks = [], pc_localDescription = None,
                      pc_remoteDescription = None, pc_iceCandidates = [], pc_closed = False,
                      pc_operations = [SetRemoteDescription ''offerB'']\<rparr>]\<rparr>)"
    by (simp add: handleOffer_begin_def createPeerConnection_def chain_def client0_def)
  have "fst (handleOffer_begin ''offerB'' ''B'' (client0 ''A'')) = 0"
    by (simp add: started)
  with ice_candidate_applied_or_dropped
      [of "client0 ''A''" "''B''" "''cand2''" _ "''offerB''" "''answerA''"]
  have window: "heap (handleOffer_resume 0 ''B'' ''answerA''
           (handleIceCandidate ''cand2'' ''B'' (snd (handleOffer_begin ''offerB'' ''B'' (client0 ''A''))))) =
     [\<lparr>pc_userId = ''B'', pc_tracks = [], pc_localDescription = Some ''answerA'',
       pc_remoteDescription = Some ''offerB'', pc_iceCandidates = [''cand2''],
       pc_closed = False, pc_operations = []\<rparr>]"
    by (simp add: client0_def)
  have offering: "map_of (peersRef (initiateCall ''B'' ''offerA'' (client0 ''A''))) ''B'' =
       Some \<lparr>peer_userId = ''B'', peer_connection = 0\<rparr> \<and>
     usable (heap (initiateCall ''B'' ''offerA'' (client0 ''A''))) 0 \<and>
     quiescent (initiateCall ''B'' ''offerA'' (client0 ''A'')) \<and>
     pc_operations (heap (initiateCall ''B'' ''offerA'' (client0 ''A'')) ! 0) = []"
    by (simp add: initiateCall_eq client0_def usable_def quiescent_def)
  with ice_candidate_applied_or_dropped
      [of "initiateCall ''B'' ''offerA'' (client0 ''A'')" "''B''" "''cand3''"
          "\<lparr>peer_userId = ''B'', peer_connection = 0\<rparr>" _ "''answerB''"]
  have answering: "heap (handleIceCandidate ''cand3'' ''B''
           (handleAnswer_begin ''answerB'' ''B'' (initiateCall ''B'' ''offerA'' (client0 ''A'')))) =
       [\<lparr>pc_userId = ''B'', pc_tracks = [], pc_localDescription = Some ''offerA'',
         pc_remoteDescription = Some ''answerB'', pc_iceCandidates = [''cand3''],
         pc_closed = False, pc_operations = []\<rparr>] \<and>
     map pc_iceCandidates
       (heap (handleAnswer ''answerB'' ''B'' (initiateCall ''B'' ''offerA'' (client0 ''A'')))) = [[]]"
    by (simp add: initiateCall_eq client0_def)
  have dropped: "map_of (peersRef (client0 ''A'')) ''B'' = None \<and>
     handleIceCandidate ''cand1'' ''B'' (client0 ''A'') = client0 ''A''"
    by (simp add: handleIceCandidate_def client0_def)
  from dropped started window offering answering show ?thesis by simp
qed

theorem ice_candidate_buffering_counterexample:
  "handleIceCandidate ''cand1'' ''B'' (client0 ''A'') = client0 ''A'' \<and>
   heap (handleOffer ''offerB'' ''B'' ''answerA''
           (handleIceCandidate ''cand1'' ''B'' (client0 ''A''))) =
     [\<lparr>pc_userId = ''B'', pc_tracks = [], pc_localDescription = Some ''answerA'',
       pc_remoteDescription = Some ''offerB'', pc_iceCandidates = [], pc_closed = False,
       pc_operations = []\<rparr>] \<and>
   heap (handleAnswer ''answerB'' ''B''
           (handleIceCandidate ''cand1'' ''B'' (initiateCall ''B'' ''offerA'' (client0 ''A'')))) =
     [\<lparr>pc_userId = ''B'', pc_tracks = [], pc_localDescription = Some ''offerA'',
       pc_remoteDescription = Some ''answerB'', pc_iceCandidates = [], pc_closed = False,
       pc_operations = []\<rparr>]"
  by (simp add: client_eval)

lemma initiateCall_heap:
  "heap (initiateCall target offer c) =
     heap c @
       [\<lparr>pc_userId = target,
         pc_tracks = (case localStreamRef c of None \<Rightarrow> [] | Some stream \<Rightarrow> stream),
         pc_localDescription = Some offer, pc_remoteDescription = None,
         pc_iceCandidates = [], pc_closed = False, pc_operations = []\<rparr>]"
  by (simp add: initiateCall_eq)

lemma initiateCall_peersRef:
  "peersRef (initiateCall target offer c) =
     AList.update target \<lparr>peer_userId = target, peer_connection = length (heap c)\<rparr> (peersRef c)"
  by (simp add: initiateCall_eq)

lemma initiateCall_emitted:
  "emitted (initiateCall target offer c) = emitted c @ [EmitWebrtcOffer target offer]"
  by (simp add: initiateCall_eq)

lemma link_initiateCall:
  "link (initiateCall target offer c) target =
     Some \<lparr>pc_userId = target,
           pc_tracks = (case localStreamRef c of None \<Rightarrow> [] | Some stream \<Rightarrow> stream),
           pc_localDescription = Some offer, pc_remoteDescription = None,
           pc_iceCandidates = [], pc_closed = False, pc_operations = []\<rparr>"
  by (simp add: link_def initiateCall_heap initiateCall_peersRef update_conv')

lemma Connected_answered:
  "Connected (handleAnswer answer target (initiateCall target offer c)) target"
  by (simp add: Connected_def link_def handleAnswer_def setRemoteDescription_idle
      initiateCall_eq update_conv' nth_append)

lemma link_handleOffer_same:
  "link (handleOffer offer f answer c) f =
     Some \<lparr>pc_userId = f,
           pc_tracks = (case localStreamRef c of None \<Rightarrow> [] | Some stream \<Rightarrow> stream),
           pc_localDescription = Some answer, pc_remoteDescription = Some offer,
           pc_iceCandidates = [], pc_closed = False, pc_operations = []\<rparr>"
  by (simp add: link_def handleOffer_heap handleOffer_peersRef update_conv')

lemma link_handleOffer_other:
  "m \<noteq> f \<Longrightarrow> peers_in_heap c \<Longrightarrow> link (handleOffer offer f answer c) m = link c m"
proof -
  assume ne: "m \<noteq> f" and wf: "peers_in_heap c"
  show ?thesis
  proof (cases "map_of (peersRef c) m")
    case None
    with ne show ?thesis by (simp add: link_def handleOffer_peersRef update_conv')
  next
    case (Some peer)
    then have "(m, peer) \<in> set (peersRef c)" by (rule map_of_SomeD)
    with wf have "peer_connection peer < length (heap c)"
      by (auto simp: peers_in_heap_def list_all_iff)
    with Some ne show ?thesis
      by (simp add: link_def handleOffer_peersRef handleOffer_heap update_conv' nth_append)
  qed
qed

lemma set_alist_update: "set (AList.update k v al) \<subseteq> insert (k, v) (set al)"
  by (induction al) auto

lemma peers_in_heap_handleOffer:
  "peers_in_heap c \<Longrightarrow> peers_in_heap (handleOffer offer f answer c)"
  unfolding peers_in_heap_def list_all_iff handleOffer_peersRef handleOffer_heap
  by (auto dest!: set_alist_update [THEN subsetD])

lemma handleOffers_snoc:
  "handleOffers (xs @ [(f, offer, answer)]) c = handleOffer offer f answer (handleOffers xs c)"
  by (simp add: handleOffers_def)

lemma peers_in_heap_handleOffers:
  "peers_in_heap c \<Longrightarrow> peers_in_heap (handleOffers xs c)"
proof (induction xs rule: rev_induct)
  case Nil
  then show ?case by (simp add: handleOffers_def)
next
  case (snoc x xs)
  then show ?case
    by (cases x) (simp add: handleOffers_snoc peers_in_heap_handleOffer)
qed

lemma handleOffers_links:
  assumes "peers_in_heap c"
  shows "m \<in> fst ` set xs \<Longrightarrow> Connected (handleOffers xs c) m"
proof (induction xs rule: rev_induct)
  case Nil
  then show ?case by simp
next
  case (snoc x xs)
  obtain f offer answer where x: "x = (f, offer, answer)" by (cases x)
  show ?case
  proof (cases "m = f")
    case True
    then show ?thesis by (simp add: x handleOffers_snoc Connected_def link_handleOffer_same)
  next
    case False
    with snoc.prems x have "m \<in> fst ` set xs" by auto
    with snoc.IH have "Connected (handleOffers xs c) m" .
    with False peers_in_heap_handleOffers [OF assms, of xs] show ?thesis
      by (simp add: x handleOffers_snoc Connected_def link_handleOffer_other)
  qed
qed

lemma handleOffers_keys:
  "distinct (map fst xs) \<Longrightarrow> set (map fst xs) \<inter> set (map fst (peersRef c)) = {} \<Longrightarrow>
   map fst (peersRef (handleOffers xs c)) = map fst (peersRef c) @ map fst xs"
proof (induction xs rule: rev_induct)
  case Nil
  then show ?case by (simp add: handleOffers_def)
next
  case (snoc x xs)
  obtain f offer answer where x: "x = (f, offer, answer)" by (cases x)
  from snoc show ?case
    by (auto simp: x handleOffers_snoc handleOffer_peersRef update_keys)
qed

lemma handleOffers_emitted:
  "emitted (handleOffers xs c) = emitted c @ map (\<lambda>(f, offer, answer). EmitWebrtcAnswer f answer) xs"
proof (induction xs rule: rev_induct)
  case Nil
  then show ?case by (simp add: handleOffers_def)
next
  case (snoc x xs)
  then show ?case by (cases x) (simp add: handleOffers_snoc handleOffer_rest)
qed

text \<open>
  C2, as the hook has it. The call-start action takes the local media, marks the call
  active and emits \<open>start-video-call\<close>; it constructs no connection and sends no offer.
  The server relays \<open>video-call-started\<close> to the other sockets of the initiator's room.
  A member whose own call is already active then constructs a connection to the
  initiator and sends it the offer, and has the link Connected once the answer is
  handled. The initiator answers every offer it receives: after the offers of distinct
  members it holds exactly one link per offering member, each Connected, and has sent one
  answer per offer.
\<close>

theorem call_start_links:
  "startCall (Some stream) c =
     c\<lparr>localStreamRef := Some stream, localStream := Some stream, isCallActive := True,
       emitted := emitted c @ [EmitStartVideoCall]\<rparr> \<and>
   (map_of (users st) i = Some u \<longrightarrow>
      snd (start_video_call i st) =
        [(SocketTo (user_roomId u) i, VideoCallStarted i (user_username u))]) \<and>
   (isCallActive m \<and> i \<noteq> socketId m \<longrightarrow>
      emitted (on_video_call_started i offer m) = emitted m @ [EmitWebrtcOffer i offer] \<and>
      link (on_video_call_started i offer m) i =
        Some \<lparr>pc_userId = i,
              pc_tracks = (case localStreamRef m of None \<Rightarrow> [] | Some str \<Rightarrow> str),
              pc_localDescription = Some offer, pc_remoteDescription = None,
              pc_iceCandidates = [], pc_closed = False, pc_operations = []\<rparr> \<and>
      Connected (handleAnswer answer i (on_video_call_started i offer m)) i) \<and>
   (peers_in_heap c \<and> distinct (map fst xs) \<and> peersRef c = [] \<longrightarrow>
      map fst (peersRef (handleOffers xs c)) = map fst xs \<and>
      (\<forall>x \<in> set xs. Connected (handleOffers xs c) (fst x)) \<and>
      emitted (handleOffers xs c) =
        emitted c @ map (\<lambda>(f, offer, answer). EmitWebrtcAnswer f answer) xs)"
proof (intro conjI impI ballI)
  show "startCall (Some stream) c =
     c\<lparr>localStreamRef := Some stream, localStream := Some stream, isCallActive := True,
       emitted := emitted c @ [EmitStartVideoCall]\<rparr>"
    by (simp add: startCall_def)
next
  assume "map_of (users st) i = Some u"
  then show "snd (start_video_call i st) =
        [(SocketTo (user_roomId u) i, VideoCallStarted i (user_username u))]"
    by (simp add: start_video_call_def)
next
  assume h: "isCallActive m \<and> i \<noteq> socketId m"
  then have eq: "on_video_call_started i offer m = initiateCall i offer m"
    by (simp add: on_video_call_started_def)
  show "emitted (on_video_call_started i offer m) = emitted m @ [EmitWebrtcOffer i offer]"
    by (simp add: eq initiateCall_emitted)
  show "link (on_video_call_started i offer m) i =
        Some \<lparr>pc_userId = i,
              pc_tracks = (case localStreamRef m of None \<Rightarrow> [] | Some str \<Rightarrow> str),
              pc_localDescription = Some offer, pc_remoteDescription = None,
              pc_iceCandidates = [], pc_closed = False, pc_operations = []\<rparr>"
    by (simp add: eq link_initiateCall)
  show "Connected (handleAnswer answer i (on_video_call_started i offer m)) i"
    by (simp add: eq Connected_answered)
next
  assume h: "peers_in_heap c \<and> distinct (map fst xs) \<and> peersRef c = []"
  then show "map fst (peersRef (handleOffers xs c)) = map fst xs"
    using handleOffers_keys [of xs c] by simp
  show "emitted (handleOffers xs c) =
        emitted c @ map (\<lambda>(f, offer, answer). EmitWebrtcAnswer f answer) xs"
    by (rule handleOffers_emitted)
  fix x assume "x \<in> set xs"
  with h show "Connected (handleOffers xs c) (fst x)"
    by (simp add: handleOffers_links)
qed

theorem call_start_links_witness:
  "map_of (users (exec [Connection ''A'', JoinRoom ''A'' ''r'' ''ann'' False 1,
                        Connection ''B'', JoinRoom ''B'' ''r'' ''bob'' False 2])) ''A'' =
     Some \<lparr>user_roomId = ''r'', user_username = ''ann''\<rparr> \<and>
   snd (start_video_call ''A''
          (exec [Connection ''A'', JoinRoom ''A'' ''r'' ''ann'' False 1,
                 Connection ''B'', JoinRoom ''B'' ''r'' ''bob'' False 2])) =
     [(SocketTo ''r'' ''A'', VideoCallStarted ''A'' ''ann'')] \<and>
   isCallActive (startCall (Some [''camB'']) (client0 ''B'')) \<and>
   ''A'' \<noteq> socketId (startCall (Some [''camB'']) (client0 ''B'')) \<and>
   emitted (on_video_call_started ''A'' ''offerB'' (startCall (Some [''camB'']) (client0 ''B''))) =
     [EmitStartVideoCall, EmitWebrtcOffer ''A'' ''offerB''] \<and>
   Connected (handleAnswer ''answerA'' ''A''
                (on_video_call_started ''A'' ''offerB''
                   (startCall (Some [''camB'']) (client0 ''B'')))) ''A'' \<and>
   peers_in_heap (startCall (Some [''camA'']) (client0 ''A'')) \<and>
   distinct (map fst [(''B'', ''offerB'', ''answerAB''), (''C'', ''offerC'', ''answerAC'')]) \<and>
   peersRef (startCall (Some [''camA'']) (client0 ''A'')) = [] \<and>
   map fst (peersRef (handleOffers [(''B'', ''offerB'', ''answerAB''), (''C'', ''offerC'', ''answerAC'')]
                        (startCall (Some [''camA'']) (client0 ''A'')))) = [''B'', ''C''] \<and>
   Connected (handleOffers [(''B'', ''offerB'', ''answerAB''), (''C'', ''offerC'', ''answerAC'')]
                (startCall (Some [''camA'']) (client0 ''A''))) ''B'' \<and>
   Connected (handleOffers [(''B'', ''offerB'', ''answerAB''), (''C'', ''offerC'', ''answerAC'')]
                (startCall (Some [''camA'']) (client0 ''A''))) ''C''"
  using call_start_links
    [of "[''camA'']" "client0 ''A''"
        "exec [Connection ''A'', JoinRoom ''A'' ''r'' ''ann'' False 1,
               Connection ''B'', JoinRoom ''B'' ''r'' ''bob'' False 2]"
        "''A''" "\<lparr>user_roomId = ''r'', user_username = ''ann''\<rparr>"
        "startCall (Some [''camB'']) (client0 ''B'')" "''offerB''" "''answerA''" "[]"]
    call_start_links
    [of "[''camA'']" "startCall (Some [''camA'']) (client0 ''A'')" _ _ _ _ _ _
        "[(''B'', ''offerB'', ''answerAB''), (''C'', ''offerC'', ''answerAC'')]"]
  by (simp add: server_eval client_eval)

theorem call_start_counterexample:
  "peersRef (startCall (Some [''camA'']) (client0 ''A'')) = [] \<and>
   emitted (startCall (Some [''camA'']) (client0 ''A'')) = [EmitStartVideoCall] \<and>
   snd (step (exec [Connection ''A'', JoinRoom ''A'' ''r'' ''ann'' False 1,
                    Connection ''B'', JoinRoom ''B'' ''r'' ''bob'' False 2])
             (StartVideoCall ''A'')) =
     [(SocketTo ''r'' ''A'', VideoCallStarted ''A'' ''ann'')] \<and>
   recipients (exec [Connection ''A'', JoinRoom ''A'' ''r'' ''ann'' False 1,
                     Connection ''B'', JoinRoom ''B'' ''r'' ''bob'' False 2])
              (SocketTo ''r'' ''A'') = [''B''] \<and>
   on_video_call_started ''A'' ''offerB'' (client0 ''B'') = client0 ''B'' \<and>
   \<not> Connected (startCall (Some [''camA'']) (client0 ''A'')) ''B'' \<and>
   \<not> Connected (on_video_call_started ''A'' ''offerB'' (client0 ''B'')) ''A''"
  by (simp add: server_eval client_eval)

section \<open>Presence, rejoining and directed routing\<close>

lemma connections_snoc_Disconnect: "connections (evs @ [Disconnect s]) = connections evs"
  by (simp add: connections_def)

lemma on_user_left_peer:
  "map_of (peersRef c) s = Some p \<Longrightarrow>
   on_user_left s c =
     c\<lparr>heap := (if peer_connection p < length (heap c)
                 then (heap c)[peer_connection p :=
                        (heap c ! peer_connection p)\<lparr>pc_closed := True, pc_operations := []\<rparr>]
                 else heap c),
       peersRef := AList.delete s (peersRef c),
       peers := AList.delete s (peersRef c),
       remoteStreams := AList.delete s (remoteStreams c)\<rparr>"
  by (simp add: on_user_left_def close_def Let_def)

lemma directed_relay:
  "webrtc_offer s t offer st = (st, [(SocketTo t s, OfferTo offer s)]) \<and>
   webrtc_answer s t answer st = (st, [(SocketTo t s, AnswerTo answer s)]) \<and>
   webrtc_ice_candidate s t cand st = (st, [(SocketTo t s, IceCandidateTo cand s)])"
  by (simp add: webrtc_offer_def webrtc_answer_def webrtc_ice_candidate_def)

lemma directed_relay_isolated:
  assumes "\<forall>s' rs. (s', rs) \<in> set (sids st) \<and> t \<in> set rs \<longrightarrow> s' = t"
  shows "set (recipients st (SocketTo t s)) \<subseteq> {t}"
  using assms by (auto simp: in_room_def)

text \<open>
  C5. The \<open>disconnect\<close> handler removes the connection from the room that \<open>users\<close>
  records for it, the room it joined last, and emits \<open>user-left\<close> to that room only.
  Evaluated on a connection s that joins room A, where t is a member, then joins room B,
  and is dropped: no \<open>user-left\<close> is emitted, s is still in the membership of A and t is
  told nothing, so t's hook never runs its \<open>user-left\<close> handler for s.
\<close>

theorem disconnect_leaves_first_room:
  "step (exec [Connection ''s'', JoinRoom ''s'' ''A'' ''sam'' False 1,
               Connection ''t'', JoinRoom ''t'' ''A'' ''tom'' False 2,
               JoinRoom ''s'' ''B'' ''sam'' False 3])
        (Disconnect ''s'') =
     (\<lparr>rooms = [(''A'', \<lparr>room_id = ''A'',
                          room_users =
                            [(''s'', \<lparr>member_id = ''s'', member_username = ''sam'', member_joinedAt = 1\<rparr>),
                             (''t'', \<lparr>member_id = ''t'', member_username = ''tom'', member_joinedAt = 2\<rparr>)],
                          room_messages = [], room_isVideoCall = False\<rparr>)],
       users = [(''t'', \<lparr>user_roomId = ''A'', user_username = ''tom''\<rparr>)],
       sids = [(''t'', [''t'', ''A''])]\<rparr>, []) \<and>
   is_member (exec [Connection ''s'', JoinRoom ''s'' ''A'' ''sam'' False 1,
                    Connection ''t'', JoinRoom ''t'' ''A'' ''tom'' False 2,
                    JoinRoom ''s'' ''B'' ''sam'' False 3, Disconnect ''s'']) ''s'' ''A''"
  by (simp add: server_eval)

text \<open>
  C3. The \<open>join-room\<close> handler does not remove the connection from the room it joined
  before: evaluated on a connection that joins room A and then room B, the registry
  holds the connection in both memberships, and after its disconnect still in A.
\<close>

theorem rejoin_keeps_first_room:
  "rooms_of (exec [Connection ''s'', JoinRoom ''s'' ''A'' ''ann'' False 1,
                   JoinRoom ''s'' ''B'' ''ann'' False 2]) ''s'' = [''A'', ''B''] \<and>
   rooms_of (exec [Connection ''s'', JoinRoom ''s'' ''A'' ''ann'' False 1,
                   JoinRoom ''s'' ''B'' ''ann'' False 2, Disconnect ''s'']) ''s'' = [''A'']"
  by (simp add: server_eval)

text \<open>
  C9. The relay addresses a directed message with \<open>socket.to(targetUserId)\<close>, the
  socket.io room of that name, which is the same namespace \<open>join-room\<close> joins. Evaluated
  on three members A, B, C of one room, where C has also sent \<open>join-room\<close> with B's
  identifier as room identifier: an offer from A to B is delivered to B and to C, and
  likewise when that is the only room C has joined. The payload carries the sender's
  identifier.
\<close>

theorem offer_reaches_third_socket:
  "snd (step (exec [Connection ''A'', JoinRoom ''A'' ''r'' ''ann'' False 1,
                    Connection ''B'', JoinRoom ''B'' ''r'' ''bob'' False 2,
                    Connection ''C'', JoinRoom ''C'' ''r'' ''cat'' False 3,
                    JoinRoom ''C'' ''B'' ''cat'' False 4])
             (WebrtcOffer ''A'' ''B'' ''offer'')) =
     [(SocketTo ''B'' ''A'', OfferTo ''offer'' ''A'')] \<and>
   recipients (exec [Connection ''A'', JoinRoom ''A'' ''r'' ''ann'' False 1,
                     Connection ''B'', JoinRoom ''B'' ''r'' ''bob'' False 2,
                     Connection ''C'', JoinRoom ''C'' ''r'' ''cat'' False 3,
                     JoinRoom ''C'' ''B'' ''cat'' False 4])
              (SocketTo ''B'' ''A'') = [''B'', ''C''] \<and>
   recipients (exec [Connection ''A'', JoinRoom ''A'' ''r'' ''ann'' False 1,
                     Connection ''B'', JoinRoom ''B'' ''r'' ''bob'' False 2,
                     Connection ''C'', JoinRoom ''C'' ''B'' ''cat'' False 3])
              (SocketTo ''B'' ''A'') = [''B'', ''C'']"
  by (simp add: server_eval)

end
